theory Spec2Isabelle
  imports Main "HOL-Library.Sublist"
begin

section \<open>Host primitives\<close>

text \<open>
  The tree provider of \<^verbatim>\<open>TreeDataProvider.ts\<close> reads the file system through
  Node's synchronous primitives and joins paths with \<^verbatim>\<open>path.join\<close>. They are
  collaborators of the program, so the model takes them as a record of functions.
  A primitive that can throw returns a sum, with \<open>Inl\<close> for the thrown error.
  A \<^verbatim>\<open>vscode.Uri\<close> made by \<^verbatim>\<open>Uri.file(p)\<close> is modelled by its \<^verbatim>\<open>fsPath\<close>,
  the path string \<open>p\<close> itself.
\<close>

datatype fs_error = ENOENT | EACCES | ENOTDIR | EIO

record stats =
  isDirectory :: bool

record host =
  path_join :: "string \<Rightarrow> string \<Rightarrow> string"
  accessSync :: "string \<Rightarrow> fs_error + unit"
  readdirSync :: "string \<Rightarrow> fs_error + string list"
  existsSync :: "string \<Rightarrow> bool"
  lstatSync :: "string \<Rightarrow> fs_error + stats"
  testIconPath :: string

text \<open>The information messages shown so far, oldest first.\<close>

record window =
  messages :: "string list"

definition showInformationMessage :: "string \<Rightarrow> window \<Rightarrow> window" where
  "showInformationMessage msg w = w\<lparr>messages := messages w @ [msg]\<rparr>"

section \<open>JavaScript string operations\<close>

text \<open>
  A string is the list of its code units. \<^verbatim>\<open>s.indexOf(pat)\<close>: the smallest index at which \<open>pat\<close> occurs in \<open>s\<close>,
  or \<open>-1\<close> when it does not occur.
\<close>

fun indexOf :: "string \<Rightarrow> string \<Rightarrow> int" where
  "indexOf [] pat = (if pat = [] then 0 else - 1)"
| "indexOf (c # cs) pat =
     (if prefix pat (c # cs) then 0
      else (let r = indexOf cs pat in if r = - 1 then - 1 else r + 1))"

definition includes_str :: "string \<Rightarrow> string \<Rightarrow> bool" where
  "includes_str s pat = (indexOf s pat \<noteq> - 1)"

text \<open>
  \<^verbatim>\<open>s.split(sep)\<close> for a separator of one character: the pieces between the
  separators, never an empty array.
\<close>

fun split_str :: "string \<Rightarrow> char \<Rightarrow> string list" where
  "split_str [] sep = [[]]"
| "split_str (c # cs) sep =
     (if c = sep then [] # split_str cs sep
      else (case split_str cs sep of
              [] \<Rightarrow> [[c]]
            | p # ps \<Rightarrow> (c # p) # ps))"

section \<open>Tree items\<close>

datatype TreeItemCollapsibleState = CollapsibleNone | Collapsed | Expanded

fun state_value :: "TreeItemCollapsibleState \<Rightarrow> nat" where
  "state_value CollapsibleNone = 0"
| "state_value Collapsed = 1"
| "state_value Expanded = 2"

definition truthy :: "TreeItemCollapsibleState \<Rightarrow> bool" where
  "truthy s = (state_value s \<noteq> 0)"

record Command =
  cmd_command :: string
  cmd_title :: string
  cmd_arguments :: "string list"

record FileItem =
  label :: string
  resourceUri :: string
  collapsibleState :: TreeItemCollapsibleState
  command :: "Command option"
  isTestOrStoryFile_field :: bool
  tooltip :: string
  iconPath :: "string option"

text \<open>The constructor of \<^verbatim>\<open>FileItem\<close>.\<close>

definition new_FileItem ::
  "host \<Rightarrow> string \<Rightarrow> string \<Rightarrow> TreeItemCollapsibleState \<Rightarrow> Command option \<Rightarrow> bool \<Rightarrow> FileItem" where
  "new_FileItem h lbl uri st cmd isTest =
     \<lparr>label = lbl, resourceUri = uri, collapsibleState = st, command = cmd,
      isTestOrStoryFile_field = isTest, tooltip = uri,
      iconPath = (if isTest then Some (testIconPath h) else None)\<rparr>"

section \<open>The tree data provider\<close>

text \<open>\<^verbatim>\<open>Array.prototype.map\<close> with a callback that can throw: the first throw wins.\<close>

fun mapE :: "('a \<Rightarrow> 'e + 'b) \<Rightarrow> 'a list \<Rightarrow> 'e + 'b list" where
  "mapE f [] = Inr []"
| "mapE f (x # xs) =
     (case f x of
        Inl e \<Rightarrow> Inl e
      | Inr y \<Rightarrow> (case mapE f xs of Inl e \<Rightarrow> Inl e | Inr ys \<Rightarrow> Inr (y # ys)))"

definition pathExists :: "host \<Rightarrow> string \<Rightarrow> bool" where
  "pathExists h p = (case accessSync h p of Inl err \<Rightarrow> False | Inr u \<Rightarrow> True)"

definition inTestOrStoryDirectory :: "host \<Rightarrow> string \<Rightarrow> string \<Rightarrow> bool" where
  "inTestOrStoryDirectory h workspaceRoot directoryPath =
     (directoryPath = path_join h workspaceRoot ''tests''
      \<or> directoryPath = path_join h workspaceRoot ''stories'')"

definition isTestOrStoryFile :: "string \<Rightarrow> bool" where
  "isTestOrStoryFile lbl = (includes_str lbl ''.test.'' \<or> includes_str lbl ''.stories.'')"

definition getAllFileNamesInDirectory :: "host \<Rightarrow> string \<Rightarrow> fs_error + string list" where
  "getAllFileNamesInDirectory h directoryPath =
     (if pathExists h directoryPath then readdirSync h directoryPath else Inr [])"

definition createFileItem :: "host \<Rightarrow> string \<Rightarrow> string \<Rightarrow> bool \<Rightarrow> fs_error + FileItem" where
  "createFileItem h element directoryPath displayTestIcon =
     (let filePath = path_join h directoryPath element in
      case (if existsSync h filePath
            then (case lstatSync h filePath of
                    Inl e \<Rightarrow> Inl e
                  | Inr st \<Rightarrow> Inr (if isDirectory st then Collapsed else CollapsibleNone))
            else Inr CollapsibleNone) of
        Inl e \<Rightarrow> Inl e
      | Inr isDir \<Rightarrow>
          Inr (new_FileItem h element filePath
                 (if truthy isDir then Collapsed else CollapsibleNone)
                 (if truthy isDir then None
                  else Some \<lparr>cmd_command = ''vscode.open'', cmd_title = '''',
                             cmd_arguments = [filePath]\<rparr>)
                 displayTestIcon))"

definition getAllFilesInDirectory :: "host \<Rightarrow> string \<Rightarrow> string \<Rightarrow> fs_error + FileItem list" where
  "getAllFilesInDirectory h workspaceRoot directoryPath =
     (case getAllFileNamesInDirectory h directoryPath of
        Inl e \<Rightarrow> Inl e
      | Inr allElements \<Rightarrow>
          (let displayTestIcon = inTestOrStoryDirectory h workspaceRoot directoryPath in
           mapE (\<lambda>element. createFileItem h element directoryPath displayTestIcon) allElements))"

text \<open>The callback of the filter in \<^verbatim>\<open>findMatchingFiles\<close>.\<close>

definition isTestFile :: "string \<Rightarrow> string \<Rightarrow> bool" where
  "isTestFile componentLabel fileName =
     (let splitPath = split_str componentLabel CHR ''.'' in
      indexOf fileName (splitPath ! 0 @ ''.test.'') = 0
      \<or> indexOf fileName (splitPath ! 0 @ ''.stories.'') = 0)"

definition findMatchingFiles :: "host \<Rightarrow> string \<Rightarrow> string \<Rightarrow> fs_error + FileItem list" where
  "findMatchingFiles h directoryPath componentLabel =
     (case getAllFileNamesInDirectory h directoryPath of
        Inl e \<Rightarrow> Inl e
      | Inr names \<Rightarrow>
          mapE (\<lambda>fileName. createFileItem h fileName directoryPath True)
               (filter (isTestFile componentLabel) names))"

text \<open>
  \<^verbatim>\<open>Array.prototype.forEach\<close> with a callback that updates a local array and can
  throw: the state after the last element, or the first throw.
\<close>

fun forEachE :: "('a \<Rightarrow> 's \<Rightarrow> 'e + 's) \<Rightarrow> 'a list \<Rightarrow> 's \<Rightarrow> 'e + 's" where
  "forEachE f [] s = Inr s"
| "forEachE f (x # xs) s =
     (case f x s of Inl e \<Rightarrow> Inl e | Inr s' \<Rightarrow> forEachE f xs s')"

text \<open>
  The callback of the \<^verbatim>\<open>forEach\<close> in \<^verbatim>\<open>getCombinedComponentsWithTestFiles\<close>,
  on the \<^verbatim>\<open>result\<close> array pushed so far.
\<close>

definition combine_callback ::
  "host \<Rightarrow> string \<Rightarrow> FileItem \<Rightarrow> FileItem list \<Rightarrow> fs_error + FileItem list" where
  "combine_callback h workspaceRoot file result =
     (let fileLabel = label file; result1 = result @ [file] in
      if \<not> isTestOrStoryFile fileLabel then
        (case findMatchingFiles h (path_join h workspaceRoot ''tests'') fileLabel of
           Inl e \<Rightarrow> Inl e
         | Inr ts \<Rightarrow>
             (case findMatchingFiles h (path_join h workspaceRoot ''stories'') fileLabel of
                Inl e \<Rightarrow> Inl e
              | Inr ss \<Rightarrow> Inr (result1 @ ts @ ss)))
      else Inr result1)"

definition getCombinedComponentsWithTestFiles ::
  "host \<Rightarrow> string \<Rightarrow> string \<Rightarrow> fs_error + FileItem list" where
  "getCombinedComponentsWithTestFiles h workspaceRoot directoryPath =
     (case getAllFilesInDirectory h workspaceRoot directoryPath of
        Inl e \<Rightarrow> Inl e
      | Inr allFiles \<Rightarrow> forEachE (combine_callback h workspaceRoot) allFiles [])"

definition getChildren ::
  "host \<Rightarrow> string \<Rightarrow> FileItem option \<Rightarrow> window \<Rightarrow> (fs_error + FileItem list) \<times> window" where
  "getChildren h workspaceRoot element w =
     (if workspaceRoot = [] then
        (Inr [], showInformationMessage ''No FileItem in empty workspace'' w)
      else
        (case element of
           Some el \<Rightarrow>
             (let isTestOrStoryDirectory = inTestOrStoryDirectory h workspaceRoot (resourceUri el) in
              if \<not> isTestOrStoryDirectory
              then (getCombinedComponentsWithTestFiles h workspaceRoot (resourceUri el), w)
              else (getAllFilesInDirectory h workspaceRoot (resourceUri el), w))
         | None \<Rightarrow> (getAllFilesInDirectory h workspaceRoot workspaceRoot, w)))"

section \<open>The stem of a file name\<close>

text \<open>The part of a name before its first dot (the whole name when it has no dot).\<close>

definition stem :: "string \<Rightarrow> string" where
  "stem c = takeWhile (\<lambda>x. x \<noteq> CHR ''.'') c"

section \<open>A file system for examples\<close>

text \<open>
  A concrete host for the examples: a list of directories, each with the
  names it lists. A listed name that is not itself one of the directories is a file.
  Paths are joined with a slash, which is what \<^verbatim>\<open>path.join\<close> does on a normalised
  directory path and a plain name.
\<close>

definition posix_join :: "string \<Rightarrow> string \<Rightarrow> string" where
  "posix_join a b = a @ ''/'' @ b"

definition tree_paths :: "(string \<times> string list) list \<Rightarrow> string list" where
  "tree_paths dirs = map fst dirs @ concat (map (\<lambda>(d, names). map (posix_join d) names) dirs)"

definition tree_host :: "(string \<times> string list) list \<Rightarrow> host" where
  "tree_host dirs =
     \<lparr>path_join = posix_join,
      accessSync = (\<lambda>p. if List.member (tree_paths dirs) p then Inr () else Inl ENOENT),
      readdirSync = (\<lambda>p. case map_of dirs p of
                            Some names \<Rightarrow> Inr names
                          | None \<Rightarrow> if List.member (tree_paths dirs) p then Inl ENOTDIR else Inl ENOENT),
      existsSync = (\<lambda>p. List.member (tree_paths dirs) p),
      lstatSync = (\<lambda>p. if List.member (tree_paths dirs) p
                        then Inr \<lparr>isDirectory = List.member (map fst dirs) p\<rparr>
                        else Inl ENOENT),
      testIconPath = ''/ext/resources/TestLogo.png''\<rparr>"

text \<open>The node of a directory, as \<^verbatim>\<open>createFileItem\<close> builds it outside the auxiliary directories.\<close>

definition directory_node :: "host \<Rightarrow> string \<Rightarrow> string \<Rightarrow> FileItem" where
  "directory_node h name path = new_FileItem h name path Collapsed None False"

text \<open>A workspace with a component and its test at the top level.\<close>

definition root_tree :: "(string \<times> string list) list" where
  "root_tree = [(''/w'', [''A.tsx'', ''tests'']), (''/w/tests'', [''A.test.tsx''])]"

definition root_tree_listing :: "FileItem list" where
  "root_tree_listing =
     [\<lparr>label = ''A.tsx'', resourceUri = ''/w/A.tsx'', collapsibleState = CollapsibleNone,
       command = Some \<lparr>cmd_command = ''vscode.open'', cmd_title = [],
                        cmd_arguments = [''/w/A.tsx'']\<rparr>,
       isTestOrStoryFile_field = False, tooltip = ''/w/A.tsx'', iconPath = None\<rparr>,
      \<lparr>label = ''tests'', resourceUri = ''/w/tests'', collapsibleState = Collapsed,
       command = None, isTestOrStoryFile_field = False, tooltip = ''/w/tests'',
       iconPath = None\<rparr>]"

definition root_tree_spliced :: "FileItem list" where
  "root_tree_spliced =
     [\<lparr>label = ''A.tsx'', resourceUri = ''/w/A.tsx'', collapsibleState = CollapsibleNone,
       command = Some \<lparr>cmd_command = ''vscode.open'', cmd_title = [],
                        cmd_arguments = [''/w/A.tsx'']\<rparr>,
       isTestOrStoryFile_field = False, tooltip = ''/w/A.tsx'', iconPath = None\<rparr>,
      \<lparr>label = ''A.test.tsx'', resourceUri = ''/w/tests/A.test.tsx'',
       collapsibleState = CollapsibleNone,
       command = Some \<lparr>cmd_command = ''vscode.open'', cmd_title = [],
                        cmd_arguments = [''/w/tests/A.test.tsx'']\<rparr>,
       isTestOrStoryFile_field = True, tooltip = ''/w/tests/A.test.tsx'',
       iconPath = Some ''/ext/resources/TestLogo.png''\<rparr>,
      \<lparr>label = ''tests'', resourceUri = ''/w/tests'', collapsibleState = Collapsed,
       command = None, isTestOrStoryFile_field = False, tooltip = ''/w/tests'',
       iconPath = None\<rparr>]"

text \<open>A component directory that holds a sub-directory named like a test's stem.\<close>

definition folder_tree :: "(string \<times> string list) list" where
  "folder_tree =
     [(''/w'', [''components'', ''tests'']),
      (''/w/components'', [''Button'']),
      (''/w/components/Button'', []),
      (''/w/tests'', [''Button.test.tsx''])]"

definition folder_tree_spliced :: "FileItem list" where
  "folder_tree_spliced =
     [\<lparr>label = ''Button'', resourceUri = ''/w/components/Button'',
       collapsibleState = Collapsed, command = None, isTestOrStoryFile_field = False,
       tooltip = ''/w/components/Button'', iconPath = None\<rparr>,
      \<lparr>label = ''Button.test.tsx'', resourceUri = ''/w/tests/Button.test.tsx'',
       collapsibleState = CollapsibleNone,
       command = Some \<lparr>cmd_command = ''vscode.open'', cmd_title = [],
                        cmd_arguments = [''/w/tests/Button.test.tsx'']\<rparr>,
       isTestOrStoryFile_field = True, tooltip = ''/w/tests/Button.test.tsx'',
       iconPath = Some ''/ext/resources/TestLogo.png''\<rparr>]"

text \<open>The two components, one test and two stories of the splice-ordering example.\<close>

definition splice_tree :: "(string \<times> string list) list" where
  "splice_tree =
     [(''/w'', [''components'', ''tests'', ''stories'']),
      (''/w/components'', [''A.tsx'', ''B.tsx'']),
      (''/w/tests'', [''A.test.tsx'']),
      (''/w/stories'', [''B.stories.tsx'', ''A.stories.tsx''])]"

text \<open>Two entries with the stem \<^verbatim>\<open>Button\<close> and one test for it.\<close>

definition twin_tree :: "(string \<times> string list) list" where
  "twin_tree =
     [(''/w'', [''components'', ''tests'']),
      (''/w/components'', [''Button.tsx'', ''Button.css'']),
      (''/w/tests'', [''Button.test.tsx''])]"

definition twin_tree_spliced :: "FileItem list" where
  "twin_tree_spliced =
     [\<lparr>label = ''Button.tsx'', resourceUri = ''/w/components/Button.tsx'',
       collapsibleState = CollapsibleNone,
       command = Some \<lparr>cmd_command = ''vscode.open'', cmd_title = [],
                        cmd_arguments = [''/w/components/Button.tsx'']\<rparr>,
       isTestOrStoryFile_field = False, tooltip = ''/w/components/Button.tsx'',
       iconPath = None\<rparr>,
      \<lparr>label = ''Button.test.tsx'', resourceUri = ''/w/tests/Button.test.tsx'',
       collapsibleState = CollapsibleNone,
       command = Some \<lparr>cmd_command = ''vscode.open'', cmd_title = [],
                        cmd_arguments = [''/w/tests/Button.test.tsx'']\<rparr>,
       isTestOrStoryFile_field = True, tooltip = ''/w/tests/Button.test.tsx'',
       iconPath = Some ''/ext/resources/TestLogo.png''\<rparr>,
      \<lparr>label = ''Button.css'', resourceUri = ''/w/components/Button.css'',
       collapsibleState = CollapsibleNone,
       command = Some \<lparr>cmd_command = ''vscode.open'', cmd_title = [],
                        cmd_arguments = [''/w/components/Button.css'']\<rparr>,
       isTestOrStoryFile_field = False, tooltip = ''/w/components/Button.css'',
       iconPath = None\<rparr>,
      \<lparr>label = ''Button.test.tsx'', resourceUri = ''/w/tests/Button.test.tsx'',
       collapsibleState = CollapsibleNone,
       command = Some \<lparr>cmd_command = ''vscode.open'', cmd_title = [],
                        cmd_arguments = [''/w/tests/Button.test.tsx'']\<rparr>,
       isTestOrStoryFile_field = True, tooltip = ''/w/tests/Button.test.tsx'',
       iconPath = Some ''/ext/resources/TestLogo.png''\<rparr>]"

text \<open>The same two entries at the top level of the workspace.\<close>

definition twin_root_tree :: "(string \<times> string list) list" where
  "twin_root_tree =
     [(''/w'', [''Button.tsx'', ''Button.css'', ''tests'']),
      (''/w/tests'', [''Button.test.tsx''])]"

definition twin_root_listing :: "FileItem list" where
  "twin_root_listing =
     [\<lparr>label = ''Button.tsx'', resourceUri = ''/w/Button.tsx'',
       collapsibleState = CollapsibleNone,
       command = Some \<lparr>cmd_command = ''vscode.open'', cmd_title = [],
                        cmd_arguments = [''/w/Button.tsx'']\<rparr>,
       isTestOrStoryFile_field = False, tooltip = ''/w/Button.tsx'', iconPath = None\<rparr>,
      \<lparr>label = ''Button.css'', resourceUri = ''/w/Button.css'',
       collapsibleState = CollapsibleNone,
       command = Some \<lparr>cmd_command = ''vscode.open'', cmd_title = [],
                        cmd_arguments = [''/w/Button.css'']\<rparr>,
       isTestOrStoryFile_field = False, tooltip = ''/w/Button.css'', iconPath = None\<rparr>,
      \<lparr>label = ''tests'', resourceUri = ''/w/tests'', collapsibleState = Collapsed,
       command = None, isTestOrStoryFile_field = False, tooltip = ''/w/tests'',
       iconPath = None\<rparr>]"

text \<open>A directory named \<^verbatim>\<open>tests\<close> below a component directory.\<close>

definition nested_tree :: "(string \<times> string list) list" where
  "nested_tree =
     [(''/w'', [''components'', ''tests'']),
      (''/w/components'', [''tests'']),
      (''/w/components/tests'', [''helpers.ts'']),
      (''/w/tests'', [''helpers.test.ts''])]"

definition nested_tree_children :: "FileItem list" where
  "nested_tree_children =
     [\<lparr>label = ''helpers.ts'', resourceUri = ''/w/components/tests/helpers.ts'',
       collapsibleState = CollapsibleNone,
       command = Some \<lparr>cmd_command = ''vscode.open'', cmd_title = [],
                        cmd_arguments = [''/w/components/tests/helpers.ts'']\<rparr>,
       isTestOrStoryFile_field = False, tooltip = ''/w/components/tests/helpers.ts'',
       iconPath = None\<rparr>,
      \<lparr>label = ''helpers.test.ts'', resourceUri = ''/w/tests/helpers.test.ts'',
       collapsibleState = CollapsibleNone,
       command = Some \<lparr>cmd_command = ''vscode.open'', cmd_title = [],
                        cmd_arguments = [''/w/tests/helpers.test.ts'']\<rparr>,
       isTestOrStoryFile_field = True, tooltip = ''/w/tests/helpers.test.ts'',
       iconPath = Some ''/ext/resources/TestLogo.png''\<rparr>]"

section \<open>String lemmas\<close>

lemma split_str_nonempty: "split_str s sep \<noteq> []"
  by (induction s) (auto split: list.splits)

lemma split_str_first: "split_str s sep ! 0 = takeWhile (\<lambda>x. x \<noteq> sep) s"
proof (induction s)
  case Nil
  show ?case by simp
next
  case (Cons c cs)
  then show ?case
    using split_str_nonempty [of cs sep] by (auto split: list.splits)
qed

lemma indexOf_range: "indexOf s pat = - 1 \<or> 0 \<le> indexOf s pat"
  by (induction s) (auto simp: Let_def)

lemma indexOf_zero_iff: "indexOf s pat = 0 \<longleftrightarrow> prefix pat s"
proof (cases s)
  case Nil
  then show ?thesis by auto
next
  case (Cons c cs)
  then show ?thesis
    using indexOf_range [of cs pat] by (auto simp: Let_def)
qed

lemma isTestFile_prefix:
  "isTestFile c x \<longleftrightarrow> prefix (stem c @ ''.test.'') x \<or> prefix (stem c @ ''.stories.'') x"
  by (simp only: isTestFile_def Let_def split_str_first indexOf_zero_iff stem_def)

section \<open>Lemmas about the provider\<close>

lemma mapE_Inr_iff: "mapE f xs = Inr ys \<longleftrightarrow> list_all2 (\<lambda>x y. f x = Inr y) xs ys"
proof (induction xs arbitrary: ys)
  case Nil
  show ?case by auto
next
  case (Cons x xs)
  show ?case
  proof (cases "f x")
    case (Inl e)
    then show ?thesis by (auto simp: list_all2_Cons1)
  next
    case (Inr y)
    then show ?thesis
      using Cons.IH by (cases "mapE f xs") (auto simp: list_all2_Cons1)
  qed
qed

lemma mapE_total:
  assumes "\<And>x. x \<in> set xs \<Longrightarrow> \<exists>y. f x = Inr y"
  shows "\<exists>ys. mapE f xs = Inr ys"
  using assms
proof (induction xs)
  case Nil
  show ?case by simp
next
  case (Cons x xs)
  then obtain y ys where "f x = Inr y" "mapE f xs = Inr ys"
    by (meson list.set_intros)
  then show ?case by simp
qed

lemma createFileItem_fields:
  assumes "createFileItem h element directoryPath flag = Inr it"
  shows "label it = element"
    and "resourceUri it = path_join h directoryPath element"
    and "isTestOrStoryFile_field it = flag"
    and "iconPath it = (if flag then Some (testIconPath h) else None)"
    and "tooltip it = path_join h directoryPath element"
  using assms
  by (auto simp: createFileItem_def new_FileItem_def Let_def split: if_splits sum.splits)

lemma createFileItem_total:
  assumes "existsSync h (path_join h directoryPath element) \<Longrightarrow>
           \<exists>st. lstatSync h (path_join h directoryPath element) = Inr st"
  shows "\<exists>it. createFileItem h element directoryPath flag = Inr it"
  using assms
  by (auto simp: createFileItem_def Let_def split: sum.splits)

lemma createFileItem_kind:
  assumes "createFileItem h element directoryPath flag = Inr it"
  shows "collapsibleState it = Collapsed \<longleftrightarrow>
           existsSync h (path_join h directoryPath element)
           \<and> map_sum id isDirectory (lstatSync h (path_join h directoryPath element)) = Inr True"
    and "command it = None \<longleftrightarrow> collapsibleState it = Collapsed"
  using assms
  by (auto simp: createFileItem_def new_FileItem_def Let_def truthy_def split: if_splits sum.splits)

lemma combine_callback_acc:
  "combine_callback h r f acc = map_sum id ((@) acc) (combine_callback h r f [])"
  by (auto simp: combine_callback_def Let_def split: sum.splits)

lemma forEachE_combine:
  "forEachE (combine_callback h r) files acc = Inr res \<longleftrightarrow>
     (\<exists>segs. list_all2 (\<lambda>f seg. combine_callback h r f [] = Inr seg) files segs
             \<and> res = acc @ concat segs)"
proof (induction files arbitrary: acc)
  case Nil
  show ?case by auto
next
  case (Cons f files)
  show ?case
  proof (cases "combine_callback h r f []")
    case (Inl e)
    then have "combine_callback h r f acc = Inl e"
      using combine_callback_acc [of h r f acc] by simp
    with Inl show ?thesis by (auto simp: list_all2_Cons1)
  next
    case (Inr seg)
    then have "combine_callback h r f acc = Inr (acc @ seg)"
      using combine_callback_acc [of h r f acc] by simp
    with Inr show ?thesis
      using Cons.IH [of "acc @ seg"] by (auto simp: list_all2_Cons1)
  qed
qed

lemma mapE_createFileItem_fields:
  assumes "mapE (\<lambda>e. createFileItem h e d flag) names = Inr items"
  shows "map label items = names"
    and "map resourceUri items = map (path_join h d) names"
    and "map isTestOrStoryFile_field items = map (\<lambda>e. flag) names"
proof -
  from assms have "list_all2 (\<lambda>e it. createFileItem h e d flag = Inr it) names items"
    by (simp add: mapE_Inr_iff)
  then have "map label items = names \<and> map resourceUri items = map (path_join h d) names
             \<and> map isTestOrStoryFile_field items = map (\<lambda>e. flag) names"
  proof (induction rule: list_all2_induct)
    case Nil
    show ?case by simp
  next
    case (Cons e it es its)
    from createFileItem_fields(1-3) [OF Cons.hyps(1)] Cons.IH show ?case by simp
  qed
  then show "map label items = names"
    and "map resourceUri items = map (path_join h d) names"
    and "map isTestOrStoryFile_field items = map (\<lambda>e. flag) names"
    by simp_all
qed

lemma mapE_createFileItem_total:
  assumes "\<And>p. existsSync h p \<Longrightarrow> \<exists>st. lstatSync h p = Inr st"
  shows "\<exists>items. mapE (\<lambda>e. createFileItem h e d flag) names = Inr items"
  by (rule mapE_total) (rule createFileItem_total, rule assms)

lemma getAllFilesInDirectory_fields:
  assumes "getAllFilesInDirectory h r d = Inr items"
  shows "getAllFileNamesInDirectory h d = Inr (map label items)"
    and "map resourceUri items = map (path_join h d) (map label items)"
    and "map isTestOrStoryFile_field items = map (\<lambda>e. inTestOrStoryDirectory h r d) items"
proof -
  from assms obtain names where
    names: "getAllFileNamesInDirectory h d = Inr names" and
    items: "mapE (\<lambda>e. createFileItem h e d (inTestOrStoryDirectory h r d)) names = Inr items"
    by (auto simp: getAllFilesInDirectory_def Let_def split: sum.splits)
  note f = mapE_createFileItem_fields [OF items]
  from names f(1) show "getAllFileNamesInDirectory h d = Inr (map label items)" by simp
  from f(1) f(2) show "map resourceUri items = map (path_join h d) (map label items)" by simp
  have "length items = length names"
    using f(1) length_map [of label items] by simp
  with f(3) show "map isTestOrStoryFile_field items = map (\<lambda>e. inTestOrStoryDirectory h r d) items"
    by (simp add: map_replicate_const)
qed

lemma findMatchingFiles_fields:
  assumes "findMatchingFiles h d lbl = Inr ms"
  shows "\<exists>names. getAllFileNamesInDirectory h d = Inr names
            \<and> map label ms = filter (isTestFile lbl) names"
    and "map resourceUri ms = map (path_join h d) (map label ms)"
    and "list_all isTestOrStoryFile_field ms"
proof -
  from assms obtain names where
    names: "getAllFileNamesInDirectory h d = Inr names" and
    items: "mapE (\<lambda>e. createFileItem h e d True) (filter (isTestFile lbl) names) = Inr ms"
    by (auto simp: findMatchingFiles_def split: sum.splits)
  note f = mapE_createFileItem_fields [OF items]
  from names f(1) show "\<exists>names. getAllFileNamesInDirectory h d = Inr names
            \<and> map label ms = filter (isTestFile lbl) names" by simp
  from f(1) f(2) show "map resourceUri ms = map (path_join h d) (map label ms)" by simp
  have "set (map isTestOrStoryFile_field ms) \<subseteq> {True}"
    unfolding f(3) by auto
  then show "list_all isTestOrStoryFile_field ms"
    by (auto simp: list_all_iff)
qed

lemma getAllFilesInDirectory_total:
  assumes "getAllFileNamesInDirectory h d = Inr names"
    and "\<And>p. existsSync h p \<Longrightarrow> \<exists>st. lstatSync h p = Inr st"
  shows "\<exists>items. getAllFilesInDirectory h r d = Inr items"
  using assms(1) mapE_createFileItem_total [of h d "inTestOrStoryDirectory h r d" names, OF assms(2)]
  by (auto simp: getAllFilesInDirectory_def Let_def)

lemma findMatchingFiles_total:
  assumes "getAllFileNamesInDirectory h d = Inr names"
    and "\<And>p. existsSync h p \<Longrightarrow> \<exists>st. lstatSync h p = Inr st"
  shows "\<exists>ms. findMatchingFiles h d lbl = Inr ms"
  using assms(1) mapE_createFileItem_total [of h d True "filter (isTestFile lbl) names", OF assms(2)]
  by (auto simp: findMatchingFiles_def)

lemma tree_host_stat:
  "existsSync (tree_host dirs) p \<Longrightarrow> \<exists>st. lstatSync (tree_host dirs) p = Inr st"
  by (simp add: tree_host_def)

lemma getCombined_segments:
  assumes "getCombinedComponentsWithTestFiles h r d = Inr res"
  shows "\<exists>base segs. getAllFilesInDirectory h r d = Inr base \<and> res = concat segs
           \<and> list_all2 (\<lambda>f seg. combine_callback h r f [] = Inr seg) base segs"
  using assms forEachE_combine [of h r _ "[]" res]
  by (auto simp: getCombinedComponentsWithTestFiles_def split: sum.splits)

lemma combine_callback_segment:
  assumes "combine_callback h r f [] = Inr seg"
  shows "if isTestOrStoryFile (label f) then seg = [f]
         else \<exists>ts ss. findMatchingFiles h (path_join h r ''tests'') (label f) = Inr ts
                \<and> findMatchingFiles h (path_join h r ''stories'') (label f) = Inr ss
                \<and> seg = f # ts @ ss"
  using assms
  by (auto simp: combine_callback_def Let_def split: sum.splits if_splits)

section \<open>The name matcher\<close>

text \<open>
  Claim C3. For all component file names \<open>C\<close> and candidate names \<open>X\<close>, the filter of
  \<^verbatim>\<open>findMatchingFiles\<close> keeps \<open>X\<close> for \<open>C\<close> if and only if \<open>X\<close> starts with
  the stem of \<open>C\<close> followed by \<^verbatim>\<open>.test.\<close> or by \<^verbatim>\<open>.stories.\<close>, the stem being the
  part of \<open>C\<close> before its first dot. In particular \<^verbatim>\<open>ButtonGroup.test.tsx\<close> is not a
  match of \<^verbatim>\<open>Button.tsx\<close>, while \<^verbatim>\<open>Button.test.tsx\<close> and \<^verbatim>\<open>Button.stories.tsx\<close>
  are.
\<close>

theorem matches_iff_stem_prefix:
  "(isTestFile C X \<longleftrightarrow> prefix (stem C @ ''.test.'') X \<or> prefix (stem C @ ''.stories.'') X)
   \<and> isTestFile ''Button.tsx'' ''ButtonGroup.test.tsx'' = False
   \<and> isTestFile ''Button.tsx'' ''Button.test.tsx'' = True
   \<and> isTestFile ''Button.tsx'' ''Button.stories.tsx'' = True"
proof -
  have general: "isTestFile C X \<longleftrightarrow> prefix (stem C @ ''.test.'') X \<or> prefix (stem C @ ''.stories.'') X"
    by (rule isTestFile_prefix)
  have button: "stem ''Button.tsx'' = ''Button''"
    by (simp add: stem_def)
  have no: "isTestFile ''Button.tsx'' ''ButtonGroup.test.tsx'' = False"
    by (simp add: isTestFile_prefix button)
  have yes1: "isTestFile ''Button.tsx'' ''Button.test.tsx'' = True"
    by (simp add: isTestFile_prefix button)
  have yes2: "isTestFile ''Button.tsx'' ''Button.stories.tsx'' = True"
    by (simp add: isTestFile_prefix button)
  from general no yes1 yes2 show ?thesis by blast
qed

section \<open>The root query\<close>

lemma root_tree_flat:
  "getAllFilesInDirectory (tree_host root_tree) ''/w'' ''/w'' = Inr root_tree_listing"
  by code_simp

text \<open>
  Claim C1, as amended. For every root query (\<^verbatim>\<open>getChildren\<close> with no node) when the
  workspace root is set, the returned sequence is the flat listing of the workspace root,
  \<^verbatim>\<open>getAllFilesInDirectory(workspaceRoot)\<close>: one node per name the directory lists, in
  listing order, with no matched test or story file spliced in. No notice is shown.
\<close>

theorem root_query_is_flat_listing:
  assumes "workspaceRoot \<noteq> []"
  shows "getChildren h workspaceRoot None w = (getAllFilesInDirectory h workspaceRoot workspaceRoot, w)
       \<and> (\<forall>items. getAllFilesInDirectory h workspaceRoot workspaceRoot = Inr items \<longrightarrow>
             getAllFileNamesInDirectory h workspaceRoot = Inr (map label items)
             \<and> map resourceUri items = map (path_join h workspaceRoot) (map label items))"
  using assms getAllFilesInDirectory_fields(1,2) [of h workspaceRoot workspaceRoot]
  by (simp add: getChildren_def)

theorem root_query_is_flat_listing_witness:
  "getChildren (tree_host root_tree) ''/w'' None \<lparr>messages = []\<rparr> =
     (Inr root_tree_listing, \<lparr>messages = []\<rparr>)
   \<and> getAllFileNamesInDirectory (tree_host root_tree) ''/w'' = Inr (map label root_tree_listing)
   \<and> map label root_tree_listing = [''A.tsx'', ''tests'']"
proof -
  have nonempty: "''/w'' \<noteq> []" by simp
  have labels: "map label root_tree_listing = [''A.tsx'', ''tests'']"
    by (simp add: root_tree_listing_def)
  from root_query_is_flat_listing [OF nonempty, of "tree_host root_tree" "\<lparr>messages = []\<rparr>"]
  show ?thesis by (simp add: root_tree_flat labels)
qed

text \<open>
  Claim C1, as stated, fails: with \<^verbatim>\<open>A.tsx\<close> at the top level of the workspace and
  \<^verbatim>\<open>A.test.tsx\<close> in its tests directory, the root query returns the two listed
  entries only, while the splice of the same directory puts the test after the component.
\<close>

theorem root_query_splices_counterexample:
  "fst (getChildren (tree_host root_tree) ''/w'' None \<lparr>messages = []\<rparr>) = Inr root_tree_listing
   \<and> getCombinedComponentsWithTestFiles (tree_host root_tree) ''/w'' ''/w'' = Inr root_tree_spliced
   \<and> map label root_tree_listing = [''A.tsx'', ''tests'']
   \<and> map label root_tree_spliced = [''A.tsx'', ''A.test.tsx'', ''tests'']
   \<and> fst (getChildren (tree_host root_tree) ''/w'' None \<lparr>messages = []\<rparr>)
       \<noteq> getCombinedComponentsWithTestFiles (tree_host root_tree) ''/w'' ''/w''"
proof -
  have a: "fst (getChildren (tree_host root_tree) ''/w'' None \<lparr>messages = []\<rparr>) = Inr root_tree_listing"
    by code_simp
  have b: "getCombinedComponentsWithTestFiles (tree_host root_tree) ''/w'' ''/w'' = Inr root_tree_spliced"
    by code_simp
  have c: "map label root_tree_listing = [''A.tsx'', ''tests'']"
    by (simp add: root_tree_listing_def)
  have d: "map label root_tree_spliced = [''A.tsx'', ''A.test.tsx'', ''tests'']"
    by (simp add: root_tree_spliced_def)
  have e: "root_tree_listing \<noteq> root_tree_spliced"
  proof
    assume same: "root_tree_listing = root_tree_spliced"
    from c d show False unfolding same by simp
  qed
  from a b c d e show ?thesis by simp
qed

section \<open>Missing directories and the missing workspace\<close>

text \<open>
  Claim C6. For every directory path \<open>D\<close> whose existence check throws (the path does not
  exist, or the check fails with any other file system error), the directory lister
  returns the empty sequence: the error of the check is caught and never reaches the
  caller.
\<close>

theorem missing_directory_lists_empty:
  assumes "accessSync h D = Inl e"
  shows "pathExists h D = False
       \<and> getAllFileNamesInDirectory h D = Inr []
       \<and> getAllFilesInDirectory h workspaceRoot D = Inr []
       \<and> findMatchingFiles h D componentLabel = Inr []"
  using assms
  by (simp add: pathExists_def getAllFileNamesInDirectory_def getAllFilesInDirectory_def
      findMatchingFiles_def)

theorem missing_directory_lists_empty_witness:
  "accessSync (tree_host root_tree) ''/w/stories'' = Inl ENOENT
   \<and> pathExists (tree_host root_tree) ''/w/stories'' = False
   \<and> getAllFileNamesInDirectory (tree_host root_tree) ''/w/stories'' = Inr []
   \<and> getAllFilesInDirectory (tree_host root_tree) ''/w'' ''/w/stories'' = Inr []
   \<and> findMatchingFiles (tree_host root_tree) ''/w/stories'' ''A.tsx'' = Inr []"
proof -
  have missing: "accessSync (tree_host root_tree) ''/w/stories'' = Inl ENOENT"
    by code_simp
  from missing missing_directory_lists_empty [OF missing, of "''/w''" "''A.tsx''"]
  show ?thesis by simp
qed

text \<open>
  Claim C7. For every root query issued when the workspace root is unset (the empty
  string), \<^verbatim>\<open>getChildren\<close> returns the empty sequence and shows exactly one notice.
\<close>

theorem empty_workspace_root_query:
  "getChildren h [] None w =
     (Inr [], w\<lparr>messages := messages w @ [''No FileItem in empty workspace'']\<rparr>)
   \<and> length (messages (snd (getChildren h [] None w))) = length (messages w) + 1"
  by (simp add: getChildren_def showInformationMessage_def)

section \<open>Determinism\<close>

text \<open>
  Claim C8. For every node, or the root, two calls of \<^verbatim>\<open>getChildren\<close> on it over the
  same file system return the same sequence: the second call, made in the window the first
  call leaves behind, returns what the first returned, and the result does not depend on
  the notices shown before.
\<close>

theorem getChildren_deterministic:
  "fst (getChildren h workspaceRoot element (snd (getChildren h workspaceRoot element w)))
     = fst (getChildren h workspaceRoot element w)
   \<and> fst (getChildren h workspaceRoot element w1) = fst (getChildren h workspaceRoot element w2)"
  by (simp add: getChildren_def Let_def split: option.splits)

section \<open>The splice\<close>

lemma findMatchingFiles_stem:
  assumes "stem a = stem b"
  shows "findMatchingFiles h d a = findMatchingFiles h d b"
proof -
  have "isTestFile a = isTestFile b"
    by (rule ext) (simp add: isTestFile_prefix assms)
  then show ?thesis by (simp only: findMatchingFiles_def)
qed

lemma nth_two_split:
  assumes "i < j" and "j < length xs"
  shows "\<exists>a b c. xs = a @ [xs ! i] @ b @ [xs ! j] @ c"
proof -
  from assms(2) have outer: "xs = take j xs @ xs ! j # drop (Suc j) xs"
    by (rule id_take_nth_drop)
  from assms have "i < length (take j xs)" by simp
  then have "take j xs = take i (take j xs) @ take j xs ! i # drop (Suc i) (take j xs)"
    by (rule id_take_nth_drop)
  with assms(1) have inner: "take j xs = take i (take j xs) @ xs ! i # drop (Suc i) (take j xs)"
    by simp
  have "xs = take i (take j xs) @ [xs ! i] @ drop (Suc i) (take j xs) @ [xs ! j] @ drop (Suc j) xs"
    using outer inner by (metis append_Cons append_Nil append_assoc)
  then show ?thesis by blast
qed

lemma plain_component_names:
  "isTestOrStoryFile ''A.tsx'' = False" "isTestOrStoryFile ''B.tsx'' = False"
  by code_simp+

lemma example_matches:
  "filter (isTestFile ''A.tsx'') [''A.test.tsx''] = [''A.test.tsx'']"
  "filter (isTestFile ''B.tsx'') [''A.test.tsx''] = []"
  "filter (isTestFile ''A.tsx'') [''B.stories.tsx'', ''A.stories.tsx''] = [''A.stories.tsx'']"
  "filter (isTestFile ''B.tsx'') [''B.stories.tsx'', ''A.stories.tsx''] = [''B.stories.tsx'']"
  by (simp_all add: isTestFile_prefix stem_def)

lemma findMatchingFiles_result:
  assumes names: "getAllFileNamesInDirectory h d = Inr names"
    and stat: "\<And>p. existsSync h p \<Longrightarrow> \<exists>st. lstatSync h p = Inr st"
  shows "\<exists>ms. findMatchingFiles h d lbl = Inr ms
           \<and> map label ms = filter (isTestFile lbl) names
           \<and> map resourceUri ms = map (path_join h d) (filter (isTestFile lbl) names)
           \<and> map isTestOrStoryFile_field ms = map (\<lambda>e. True) (filter (isTestFile lbl) names)"
proof -
  from mapE_createFileItem_total [of h d True "filter (isTestFile lbl) names", OF stat]
  obtain ms where ms: "mapE (\<lambda>e. createFileItem h e d True) (filter (isTestFile lbl) names) = Inr ms"
    by blast
  with names have "findMatchingFiles h d lbl = Inr ms"
    by (simp add: findMatchingFiles_def)
  with mapE_createFileItem_fields [OF ms] show ?thesis by blast
qed

lemma folder_tree_combined:
  "getCombinedComponentsWithTestFiles (tree_host folder_tree) ''/w'' ''/w/components''
     = Inr folder_tree_spliced"
  by code_simp

text \<open>
  Claim C2, as amended. In \<^verbatim>\<open>getCombinedComponentsWithTestFiles\<close> the result is the
  listing of the directory with a segment for each entry, in listing order. An entry whose
  own name contains \<^verbatim>\<open>.test.\<close> or \<^verbatim>\<open>.stories.\<close> is passed through alone. Every
  other entry, a file or a directory alike, is followed by its matches from the tests
  directory and then by its matches from the stories directory.
\<close>

theorem splice_ignores_entry_kind:
  assumes "getCombinedComponentsWithTestFiles h workspaceRoot directoryPath = Inr res"
  shows "\<exists>base segs.
           getAllFilesInDirectory h workspaceRoot directoryPath = Inr base
           \<and> res = concat segs
           \<and> list_all2
               (\<lambda>f seg.
                  if isTestOrStoryFile (label f) then seg = [f]
                  else \<exists>ts ss.
                         findMatchingFiles h (path_join h workspaceRoot ''tests'') (label f) = Inr ts
                         \<and> findMatchingFiles h (path_join h workspaceRoot ''stories'') (label f) = Inr ss
                         \<and> seg = f # ts @ ss)
               base segs"
proof -
  from getCombined_segments [OF assms] obtain base segs where
    base: "getAllFilesInDirectory h workspaceRoot directoryPath = Inr base" and
    res: "res = concat segs" and
    segs: "list_all2 (\<lambda>f seg. combine_callback h workspaceRoot f [] = Inr seg) base segs"
    by blast
  from segs have "list_all2
               (\<lambda>f seg.
                  if isTestOrStoryFile (label f) then seg = [f]
                  else \<exists>ts ss.
                         findMatchingFiles h (path_join h workspaceRoot ''tests'') (label f) = Inr ts
                         \<and> findMatchingFiles h (path_join h workspaceRoot ''stories'') (label f) = Inr ss
                         \<and> seg = f # ts @ ss)
               base segs"
    by (rule list_all2_mono) (rule combine_callback_segment)
  with base res show ?thesis by blast
qed

theorem splice_ignores_entry_kind_witness:
  "\<exists>base segs.
     getAllFilesInDirectory (tree_host folder_tree) ''/w'' ''/w/components'' = Inr base
     \<and> folder_tree_spliced = concat segs
     \<and> list_all2
         (\<lambda>f seg.
            if isTestOrStoryFile (label f) then seg = [f]
            else \<exists>ts ss.
                   findMatchingFiles (tree_host folder_tree)
                     (path_join (tree_host folder_tree) ''/w'' ''tests'') (label f) = Inr ts
                   \<and> findMatchingFiles (tree_host folder_tree)
                     (path_join (tree_host folder_tree) ''/w'' ''stories'') (label f) = Inr ss
                   \<and> seg = f # ts @ ss)
         base segs"
  by (rule splice_ignores_entry_kind [OF folder_tree_combined])

text \<open>
  Claim C2, as stated, fails for directories: the component directory lists the single
  sub-directory \<^verbatim>\<open>Button\<close>, the tests directory holds \<^verbatim>\<open>Button.test.tsx\<close>, and the
  test is appended after the node of the sub-directory.
\<close>

theorem splice_after_directory_counterexample:
  "getCombinedComponentsWithTestFiles (tree_host folder_tree) ''/w'' ''/w/components''
     = Inr folder_tree_spliced
   \<and> getAllFilesInDirectory (tree_host folder_tree) ''/w'' ''/w/components''
     = Inr [hd folder_tree_spliced]
   \<and> map label folder_tree_spliced = [''Button'', ''Button.test.tsx'']
   \<and> map collapsibleState folder_tree_spliced = [Collapsed, CollapsibleNone]
   \<and> map isTestOrStoryFile_field folder_tree_spliced = [False, True]"
proof -
  have listing: "getAllFilesInDirectory (tree_host folder_tree) ''/w'' ''/w/components''
     = Inr [hd folder_tree_spliced]"
    by code_simp
  show ?thesis
    by (simp add: folder_tree_combined listing) (simp add: folder_tree_spliced_def)
qed

text \<open>
  Claim C4. For a directory whose listing is \<^verbatim>\<open>[A.tsx, B.tsx]\<close>, with the tests
  directory listing \<^verbatim>\<open>[A.test.tsx]\<close> and the stories directory listing
  \<^verbatim>\<open>[B.stories.tsx, A.stories.tsx]\<close>, the splice returns exactly
  \<^verbatim>\<open>[A.tsx, A.test.tsx, A.stories.tsx, B.tsx, B.stories.tsx]\<close>: the listing order is
  kept, each component is followed at once by its matches, tests before stories, and the
  files that do not match are left out. The matches carry the auxiliary mark and the paths
  of the auxiliary directories. No \<^verbatim>\<open>lstatSync\<close> on an existing path is taken to throw.
\<close>

theorem splice_ordering:
  assumes dir: "pathExists h d" "readdirSync h d = Inr [''A.tsx'', ''B.tsx'']"
    and tests: "pathExists h (path_join h r ''tests'')"
      "readdirSync h (path_join h r ''tests'') = Inr [''A.test.tsx'']"
    and stories: "pathExists h (path_join h r ''stories'')"
      "readdirSync h (path_join h r ''stories'') = Inr [''B.stories.tsx'', ''A.stories.tsx'']"
    and stat: "\<And>p. existsSync h p \<Longrightarrow> \<exists>st. lstatSync h p = Inr st"
  shows "\<exists>items. getCombinedComponentsWithTestFiles h r d = Inr items
           \<and> map label items =
               [''A.tsx'', ''A.test.tsx'', ''A.stories.tsx'', ''B.tsx'', ''B.stories.tsx'']
           \<and> map resourceUri items =
               [path_join h d ''A.tsx'',
                path_join h (path_join h r ''tests'') ''A.test.tsx'',
                path_join h (path_join h r ''stories'') ''A.stories.tsx'',
                path_join h d ''B.tsx'',
                path_join h (path_join h r ''stories'') ''B.stories.tsx'']
           \<and> map isTestOrStoryFile_field items = [False, True, True, False, True]"
proof -
  let ?T = "path_join h r ''tests''" and ?S = "path_join h r ''stories''"
  have names_d: "getAllFileNamesInDirectory h d = Inr [''A.tsx'', ''B.tsx'']"
    using dir by (simp add: getAllFileNamesInDirectory_def)
  have names_T: "getAllFileNamesInDirectory h ?T = Inr [''A.test.tsx'']"
    using tests by (simp add: getAllFileNamesInDirectory_def)
  have names_S: "getAllFileNamesInDirectory h ?S = Inr [''B.stories.tsx'', ''A.stories.tsx'']"
    using stories by (simp add: getAllFileNamesInDirectory_def)
  have plain: "\<not> inTestOrStoryDirectory h r d"
    using dir(2) tests(2) stories(2) by (auto simp: inTestOrStoryDirectory_def)
  from getAllFilesInDirectory_total [OF names_d stat, of r]
  obtain base where base: "getAllFilesInDirectory h r d = Inr base" by blast
  note bf = getAllFilesInDirectory_fields [OF base]
  from bf(1) names_d have "map label base = [''A.tsx'', ''B.tsx'']" by simp
  then obtain a b where
    ab: "base = [a, b]" and la: "label a = ''A.tsx''" and lb: "label b = ''B.tsx''"
    by (auto simp: map_eq_Cons_conv)
  from bf(2) ab la lb have ua: "resourceUri a = path_join h d ''A.tsx''"
    and ub: "resourceUri b = path_join h d ''B.tsx''" by simp_all
  from bf(3) ab plain have fa: "\<not> isTestOrStoryFile_field a"
    and fb: "\<not> isTestOrStoryFile_field b" by simp_all
  from findMatchingFiles_result [OF names_T stat, of "''A.tsx''", unfolded example_matches]
  obtain ta where ta: "findMatchingFiles h ?T ''A.tsx'' = Inr ta"
    and ta_l: "map label ta = [''A.test.tsx'']"
    and ta_u: "map resourceUri ta = [path_join h ?T ''A.test.tsx'']"
    and ta_f: "map isTestOrStoryFile_field ta = [True]"
    by auto
  from findMatchingFiles_result [OF names_S stat, of "''A.tsx''", unfolded example_matches]
  obtain sa where sa: "findMatchingFiles h ?S ''A.tsx'' = Inr sa"
    and sa_l: "map label sa = [''A.stories.tsx'']"
    and sa_u: "map resourceUri sa = [path_join h ?S ''A.stories.tsx'']"
    and sa_f: "map isTestOrStoryFile_field sa = [True]"
    by auto
  from findMatchingFiles_result [OF names_T stat, of "''B.tsx''", unfolded example_matches]
  have tb: "findMatchingFiles h ?T ''B.tsx'' = Inr []"
    by auto
  from findMatchingFiles_result [OF names_S stat, of "''B.tsx''", unfolded example_matches]
  obtain sb where sb: "findMatchingFiles h ?S ''B.tsx'' = Inr sb"
    and sb_l: "map label sb = [''B.stories.tsx'']"
    and sb_u: "map resourceUri sb = [path_join h ?S ''B.stories.tsx'']"
    and sb_f: "map isTestOrStoryFile_field sb = [True]"
    by auto
  have first: "combine_callback h r a [] = Inr (a # ta @ sa)"
    by (simp add: combine_callback_def la plain_component_names ta sa)
  have second: "combine_callback h r b (a # ta @ sa) = Inr (a # ta @ sa @ b # sb)"
    by (simp add: combine_callback_def lb plain_component_names tb sb)
  have run: "getCombinedComponentsWithTestFiles h r d = Inr (a # ta @ sa @ b # sb)"
    by (simp add: getCombinedComponentsWithTestFiles_def base ab first second)
  show ?thesis
    unfolding run
    by (simp add: la lb ua ub fa fb ta_l ta_u ta_f sa_l sa_u sa_f sb_l sb_u sb_f)
qed

theorem splice_ordering_witness:
  "\<exists>items. getCombinedComponentsWithTestFiles (tree_host splice_tree) ''/w'' ''/w/components'' = Inr items
           \<and> map label items =
               [''A.tsx'', ''A.test.tsx'', ''A.stories.tsx'', ''B.tsx'', ''B.stories.tsx'']
           \<and> map resourceUri items =
               [''/w/components/A.tsx'', ''/w/tests/A.test.tsx'', ''/w/stories/A.stories.tsx'',
                ''/w/components/B.tsx'', ''/w/stories/B.stories.tsx'']
           \<and> map isTestOrStoryFile_field items = [False, True, True, False, True]"
proof -
  let ?h = "tree_host splice_tree"
  have joined: "path_join ?h = posix_join"
    by (simp add: tree_host_def)
  have paths: "posix_join ''/w'' ''tests'' = ''/w/tests''"
    "posix_join ''/w'' ''stories'' = ''/w/stories''"
    "posix_join ''/w/components'' ''A.tsx'' = ''/w/components/A.tsx''"
    "posix_join ''/w/components'' ''B.tsx'' = ''/w/components/B.tsx''"
    "posix_join ''/w/tests'' ''A.test.tsx'' = ''/w/tests/A.test.tsx''"
    "posix_join ''/w/stories'' ''A.stories.tsx'' = ''/w/stories/A.stories.tsx''"
    "posix_join ''/w/stories'' ''B.stories.tsx'' = ''/w/stories/B.stories.tsx''"
    by (simp_all add: posix_join_def)
  have d1: "pathExists ?h ''/w/components''" by code_simp
  have d2: "readdirSync ?h ''/w/components'' = Inr [''A.tsx'', ''B.tsx'']" by code_simp
  have t1: "pathExists ?h (path_join ?h ''/w'' ''tests'')" by code_simp
  have t2: "readdirSync ?h (path_join ?h ''/w'' ''tests'') = Inr [''A.test.tsx'']" by code_simp
  have s1: "pathExists ?h (path_join ?h ''/w'' ''stories'')" by code_simp
  have s2: "readdirSync ?h (path_join ?h ''/w'' ''stories'') = Inr [''B.stories.tsx'', ''A.stories.tsx'']"
    by code_simp
  from splice_ordering [OF d1 d2 t1 t2 s1 s2 tree_host_stat]
  show ?thesis
    by (simp add: joined paths)
qed

section \<open>Expanding a node\<close>

lemma splice_tree_tests_listing:
  "getAllFilesInDirectory (tree_host splice_tree) ''/w'' ''/w/tests'' =
     Inr [new_FileItem (tree_host splice_tree) ''A.test.tsx'' ''/w/tests/A.test.tsx''
            CollapsibleNone
            (Some \<lparr>cmd_command = ''vscode.open'', cmd_title = [],
                    cmd_arguments = [''/w/tests/A.test.tsx'']\<rparr>) True]"
  by code_simp

lemma nested_tree_combined:
  "getCombinedComponentsWithTestFiles (tree_host nested_tree) ''/w'' ''/w/components/tests''
     = Inr nested_tree_children"
  by code_simp

text \<open>
  Claim C5. With the workspace root set, for every node whose path is exactly one of the
  two auxiliary directory paths, \<^verbatim>\<open>getChildren\<close> returns exactly the flat listing of
  that path, nothing spliced in: one node per listed name, in order, and every node marked
  auxiliary whatever its kind.
\<close>

theorem auxiliary_directory_flat_listing:
  assumes "workspaceRoot \<noteq> []"
    and "resourceUri node = path_join h workspaceRoot ''tests''
         \<or> resourceUri node = path_join h workspaceRoot ''stories''"
  shows "getChildren h workspaceRoot (Some node) w
           = (getAllFilesInDirectory h workspaceRoot (resourceUri node), w)
       \<and> (\<forall>items. getAllFilesInDirectory h workspaceRoot (resourceUri node) = Inr items \<longrightarrow>
             getAllFileNamesInDirectory h (resourceUri node) = Inr (map label items)
             \<and> map resourceUri items = map (path_join h (resourceUri node)) (map label items)
             \<and> list_all isTestOrStoryFile_field items)"
proof -
  from assms(2) have aux: "inTestOrStoryDirectory h workspaceRoot (resourceUri node)"
    by (simp add: inTestOrStoryDirectory_def)
  with assms(1) have call: "getChildren h workspaceRoot (Some node) w
           = (getAllFilesInDirectory h workspaceRoot (resourceUri node), w)"
    by (simp add: getChildren_def)
  have "getAllFileNamesInDirectory h (resourceUri node) = Inr (map label items)
        \<and> map resourceUri items = map (path_join h (resourceUri node)) (map label items)
        \<and> list_all isTestOrStoryFile_field items"
    if items: "getAllFilesInDirectory h workspaceRoot (resourceUri node) = Inr items" for items
  proof -
    note f = getAllFilesInDirectory_fields [OF items]
    from f(3) aux have "map isTestOrStoryFile_field items = map (\<lambda>e. True) items"
      by simp
    then have "list_all isTestOrStoryFile_field items"
      by (simp add: list_all_iff)
    with f(1) f(2) show ?thesis by simp
  qed
  with call show ?thesis by blast
qed

theorem auxiliary_directory_flat_listing_witness:
  "getChildren (tree_host splice_tree) ''/w''
       (Some (directory_node (tree_host splice_tree) ''tests'' ''/w/tests'')) \<lparr>messages = []\<rparr>
     = (Inr [new_FileItem (tree_host splice_tree) ''A.test.tsx'' ''/w/tests/A.test.tsx''
               CollapsibleNone
               (Some \<lparr>cmd_command = ''vscode.open'', cmd_title = [],
                       cmd_arguments = [''/w/tests/A.test.tsx'']\<rparr>) True],
        \<lparr>messages = []\<rparr>)
   \<and> getAllFileNamesInDirectory (tree_host splice_tree) ''/w/tests'' = Inr [''A.test.tsx'']"
proof -
  have nonempty: "''/w'' \<noteq> []" by simp
  have uri: "resourceUri (directory_node (tree_host splice_tree) ''tests'' ''/w/tests'') = ''/w/tests''"
    by (simp add: directory_node_def new_FileItem_def)
  have joined: "path_join (tree_host splice_tree) ''/w'' ''tests'' = ''/w/tests''"
    by (simp add: tree_host_def posix_join_def)
  have aux: "resourceUri (directory_node (tree_host splice_tree) ''tests'' ''/w/tests'')
               = path_join (tree_host splice_tree) ''/w'' ''tests''
             \<or> resourceUri (directory_node (tree_host splice_tree) ''tests'' ''/w/tests'')
               = path_join (tree_host splice_tree) ''/w'' ''stories''"
    by (simp add: uri joined)
  from auxiliary_directory_flat_listing [OF nonempty aux, of "\<lparr>messages = []\<rparr>"]
  show ?thesis
    by (simp add: uri splice_tree_tests_listing new_FileItem_def)
qed

lemma combined_shared_stem:
  assumes res: "getCombinedComponentsWithTestFiles h r d = Inr res"
    and names: "getAllFileNamesInDirectory h d = Inr names"
    and ij: "i < j" "j < length names"
    and plain: "\<not> isTestOrStoryFile (names ! i)" "\<not> isTestOrStoryFile (names ! j)"
    and stems: "stem (names ! i) = stem (names ! j)"
  shows "\<exists>ts ss fi fj pre mid post.
           findMatchingFiles h (path_join h r ''tests'') (names ! i) = Inr ts
           \<and> findMatchingFiles h (path_join h r ''stories'') (names ! i) = Inr ss
           \<and> label fi = names ! i \<and> label fj = names ! j
           \<and> res = pre @ (fi # ts @ ss) @ mid @ (fj # ts @ ss) @ post"
proof -
  let ?T = "path_join h r ''tests''" and ?S = "path_join h r ''stories''"
  from getCombined_segments [OF res] obtain base segs where
    base: "getAllFilesInDirectory h r d = Inr base" and
    cat: "res = concat segs" and
    segs: "list_all2 (\<lambda>f seg. combine_callback h r f [] = Inr seg) base segs"
    by blast
  from getAllFilesInDirectory_fields(1) [OF base] names
  have labels: "names = map label base" by simp
  then have len: "length base = length names" by simp
  from segs have len_segs: "length segs = length base"
    by (simp add: list_all2_lengthD)
  from ij len have i_lt: "i < length base" and j_lt: "j < length base" by simp_all
  from labels i_lt j_lt have li: "label (base ! i) = names ! i"
    and lj: "label (base ! j) = names ! j" by simp_all
  from segs i_lt have ci: "combine_callback h r (base ! i) [] = Inr (segs ! i)"
    by (rule list_all2_nthD)
  from segs j_lt have cj: "combine_callback h r (base ! j) [] = Inr (segs ! j)"
    by (rule list_all2_nthD)
  from combine_callback_segment [OF ci] plain(1) li obtain ts ss where
    ts: "findMatchingFiles h ?T (names ! i) = Inr ts" and
    ss: "findMatchingFiles h ?S (names ! i) = Inr ss" and
    si: "segs ! i = base ! i # ts @ ss"
    by auto
  from combine_callback_segment [OF cj] plain(2) lj obtain ts' ss' where
    ts': "findMatchingFiles h ?T (names ! j) = Inr ts'" and
    ss': "findMatchingFiles h ?S (names ! j) = Inr ss'" and
    sj: "segs ! j = base ! j # ts' @ ss'"
    by auto
  from ts ts' findMatchingFiles_stem [OF stems, of h ?T] have same_ts: "ts' = ts" by simp
  from ss ss' findMatchingFiles_stem [OF stems, of h ?S] have same_ss: "ss' = ss" by simp
  from ij(1) j_lt len_segs nth_two_split [of i j segs] obtain a b c where
    "segs = a @ [segs ! i] @ b @ [segs ! j] @ c" by auto
  then have "concat segs = concat (a @ [segs ! i] @ b @ [segs ! j] @ c)" by simp
  then have shape: "res = concat a @ (base ! i # ts @ ss) @ concat b @ (base ! j # ts @ ss) @ concat c"
    by (simp add: cat si sj same_ts same_ss)
  from ts ss li lj shape show ?thesis by blast
qed

lemma isTestFile_stem_filter:
  "filter (isTestFile c) listed
     = filter (\<lambda>m. prefix (stem c @ ''.test.'') m \<or> prefix (stem c @ ''.stories.'') m) listed"
  by (rule filter_cong) (simp_all add: isTestFile_prefix)

lemma matched_path_twice:
  assumes uris: "map resourceUri ms = map (path_join h aux) (map label ms)"
    and m: "m \<in> set (map label ms)"
    and shape: "res = pre @ (fi # ts @ ss) @ mid @ (fj # ts @ ss) @ post"
    and part: "set ms \<subseteq> set (ts @ ss)"
  shows "2 \<le> count_list (map resourceUri res) (path_join h aux m)"
proof -
  from m obtain x where x: "x \<in> set ms" and lx: "label x = m" by auto
  from uris have "\<forall>y \<in> set ms. resourceUri y = path_join h aux (label y)"
    by (simp add: map_eq_conv)
  with x lx have ux: "resourceUri x = path_join h aux m" by simp
  from x part have "x \<in> set (ts @ ss)" by blast
  then have "path_join h aux m \<in> set (map resourceUri (ts @ ss))"
    using ux by force
  then have "count_list (map resourceUri (ts @ ss)) (path_join h aux m) \<noteq> 0"
    by (simp only: count_list_0_iff not_not)
  then have one: "1 \<le> count_list (map resourceUri (ts @ ss)) (path_join h aux m)"
    by arith
  have "map resourceUri res =
          map resourceUri pre @ (resourceUri fi # map resourceUri (ts @ ss))
          @ map resourceUri mid @ (resourceUri fj # map resourceUri (ts @ ss))
          @ map resourceUri post"
    by (simp add: shape)
  then have "count_list (map resourceUri res) (path_join h aux m)
               \<ge> count_list (map resourceUri (ts @ ss)) (path_join h aux m)
                 + count_list (map resourceUri (ts @ ss)) (path_join h aux m)"
    by (simp only: count_list_append count_list.simps) simp
  with one show ?thesis by linarith
qed

lemma twin_tree_expanded:
  "fst (getChildren (tree_host twin_tree) ''/w''
          (Some (directory_node (tree_host twin_tree) ''components'' ''/w/components''))
          \<lparr>messages = []\<rparr>)
     = Inr twin_tree_spliced"
  by code_simp

text \<open>
  Claim C9, as amended. With the workspace root set, let a node other than the two
  auxiliary directories be expanded. If the listing of its directory has two entries at
  different positions whose names share a stem and contain neither \<^verbatim>\<open>.test.\<close> nor
  \<^verbatim>\<open>.stories.\<close>, then each of the two entries is followed in the result of
  \<^verbatim>\<open>getChildren\<close> by the same matches: a node for every name of the tests directory
  that starts with the stem and \<^verbatim>\<open>.test.\<close> or \<^verbatim>\<open>.stories.\<close>, then a node for every
  such name of the stories directory. So the path of every matching auxiliary file occurs
  at least twice in that single result.
\<close>

theorem shared_stem_splices_twice:
  assumes root: "workspaceRoot \<noteq> []"
    and node: "resourceUri node \<noteq> path_join h workspaceRoot ''tests''"
      "resourceUri node \<noteq> path_join h workspaceRoot ''stories''"
    and res: "fst (getChildren h workspaceRoot (Some node) w) = Inr res"
    and names: "getAllFileNamesInDirectory h (resourceUri node) = Inr names"
    and ij: "i < j" "j < length names"
    and plain: "\<not> isTestOrStoryFile (names ! i)" "\<not> isTestOrStoryFile (names ! j)"
    and stems: "stem (names ! i) = stem (names ! j)"
  shows "\<exists>ts ss fi fj pre mid post listedT listedS.
           getAllFileNamesInDirectory h (path_join h workspaceRoot ''tests'') = Inr listedT
           \<and> getAllFileNamesInDirectory h (path_join h workspaceRoot ''stories'') = Inr listedS
           \<and> map label ts =
               filter (\<lambda>m. prefix (stem (names ! i) @ ''.test.'') m
                          \<or> prefix (stem (names ! i) @ ''.stories.'') m) listedT
           \<and> map label ss =
               filter (\<lambda>m. prefix (stem (names ! i) @ ''.test.'') m
                          \<or> prefix (stem (names ! i) @ ''.stories.'') m) listedS
           \<and> map resourceUri ts = map (path_join h (path_join h workspaceRoot ''tests'')) (map label ts)
           \<and> map resourceUri ss = map (path_join h (path_join h workspaceRoot ''stories'')) (map label ss)
           \<and> label fi = names ! i \<and> label fj = names ! j
           \<and> res = pre @ (fi # ts @ ss) @ mid @ (fj # ts @ ss) @ post
           \<and> (\<forall>m \<in> set (map label ts).
                 2 \<le> count_list (map resourceUri res)
                       (path_join h (path_join h workspaceRoot ''tests'') m))
           \<and> (\<forall>m \<in> set (map label ss).
                 2 \<le> count_list (map resourceUri res)
                       (path_join h (path_join h workspaceRoot ''stories'') m))"
proof -
  let ?T = "path_join h workspaceRoot ''tests''" and ?S = "path_join h workspaceRoot ''stories''"
  from node have "\<not> inTestOrStoryDirectory h workspaceRoot (resourceUri node)"
    by (simp add: inTestOrStoryDirectory_def)
  with root res have combined:
    "getCombinedComponentsWithTestFiles h workspaceRoot (resourceUri node) = Inr res"
    by (simp add: getChildren_def)
  from combined_shared_stem [OF combined names ij plain stems]
  obtain ts ss fi fj pre mid post where
    ts: "findMatchingFiles h ?T (names ! i) = Inr ts" and
    ss: "findMatchingFiles h ?S (names ! i) = Inr ss" and
    li: "label fi = names ! i" and lj: "label fj = names ! j" and
    shape: "res = pre @ (fi # ts @ ss) @ mid @ (fj # ts @ ss) @ post"
    by blast
  from findMatchingFiles_fields(1) [OF ts] obtain listedT where
    lt: "getAllFileNamesInDirectory h ?T = Inr listedT" and
    ts_l: "map label ts = filter (isTestFile (names ! i)) listedT"
    by blast
  from findMatchingFiles_fields(1) [OF ss] obtain listedS where
    ls: "getAllFileNamesInDirectory h ?S = Inr listedS" and
    ss_l: "map label ss = filter (isTestFile (names ! i)) listedS"
    by blast
  note ts_u = findMatchingFiles_fields(2) [OF ts]
  note ss_u = findMatchingFiles_fields(2) [OF ss]
  have twice_t: "2 \<le> count_list (map resourceUri res) (path_join h ?T m)"
    if "m \<in> set (map label ts)" for m
    using ts_u that shape by (rule matched_path_twice) simp
  have twice_s: "2 \<le> count_list (map resourceUri res) (path_join h ?S m)"
    if "m \<in> set (map label ss)" for m
    using ss_u that shape by (rule matched_path_twice) simp
  from lt ls ts_l ss_l ts_u ss_u li lj shape twice_t twice_s
  show ?thesis
    unfolding isTestFile_stem_filter by blast
qed

theorem shared_stem_splices_twice_witness:
  "\<exists>res. fst (getChildren (tree_host twin_tree) ''/w''
                (Some (directory_node (tree_host twin_tree) ''components'' ''/w/components''))
                \<lparr>messages = []\<rparr>) = Inr res
         \<and> map label res = [''Button.tsx'', ''Button.test.tsx'', ''Button.css'', ''Button.test.tsx'']
         \<and> map resourceUri res =
             [''/w/components/Button.tsx'', ''/w/tests/Button.test.tsx'',
              ''/w/components/Button.css'', ''/w/tests/Button.test.tsx'']
         \<and> 2 \<le> count_list (map resourceUri res) ''/w/tests/Button.test.tsx''"
proof -
  let ?h = "tree_host twin_tree"
  let ?node = "directory_node ?h ''components'' ''/w/components''"
  have nonempty: "''/w'' \<noteq> []" by simp
  have uri: "resourceUri ?node = ''/w/components''"
    by (simp add: directory_node_def new_FileItem_def)
  have joined: "path_join ?h ''/w'' ''tests'' = ''/w/tests''"
    "path_join ?h ''/w'' ''stories'' = ''/w/stories''"
    "path_join ?h ''/w/tests'' ''Button.test.tsx'' = ''/w/tests/Button.test.tsx''"
    by (simp_all add: tree_host_def posix_join_def)
  have not_tests: "resourceUri ?node \<noteq> path_join ?h ''/w'' ''tests''"
    by (simp add: uri joined)
  have not_stories: "resourceUri ?node \<noteq> path_join ?h ''/w'' ''stories''"
    by (simp add: uri joined)
  have names: "getAllFileNamesInDirectory ?h (resourceUri ?node) = Inr [''Button.tsx'', ''Button.css'']"
    unfolding uri by code_simp
  have order: "(0::nat) < 1" "1 < length [''Button.tsx'', ''Button.css'']"
    by simp_all
  have plain: "\<not> isTestOrStoryFile ([''Button.tsx'', ''Button.css''] ! 0)"
    "\<not> isTestOrStoryFile ([''Button.tsx'', ''Button.css''] ! 1)"
    by code_simp+
  have stems: "stem ([''Button.tsx'', ''Button.css''] ! 0) = stem ([''Button.tsx'', ''Button.css''] ! 1)"
    by (simp add: stem_def)
  have listed: "getAllFileNamesInDirectory ?h ''/w/tests'' = Inr [''Button.test.tsx'']"
    by code_simp
  note inst = shared_stem_splices_twice
    [OF nonempty not_tests not_stories twin_tree_expanded names order plain stems]
  have first_name: "[''Button.tsx'', ''Button.css''] ! 0 = ''Button.tsx''" by simp
  have button: "stem ''Button.tsx'' = ''Button''" by (simp add: stem_def)
  from inst have "\<exists>(ts :: FileItem list) listedT.
      getAllFileNamesInDirectory ?h ''/w/tests'' = Inr listedT
      \<and> map label ts =
            filter (\<lambda>m. prefix (''Button'' @ ''.test.'') m \<or> prefix (''Button'' @ ''.stories.'') m) listedT
      \<and> (\<forall>m \<in> set (map label ts).
             2 \<le> count_list (map resourceUri twin_tree_spliced) (path_join ?h ''/w/tests'' m))"
    unfolding first_name button joined
    by (elim exE conjE) (intro exI conjI; assumption)
  then obtain ts :: "FileItem list" and listedT where
    lt: "getAllFileNamesInDirectory ?h ''/w/tests'' = Inr listedT" and
    ts_l: "map label ts =
            filter (\<lambda>m. prefix (''Button'' @ ''.test.'') m \<or> prefix (''Button'' @ ''.stories.'') m) listedT" and
    twice: "\<forall>m \<in> set (map label ts).
             2 \<le> count_list (map resourceUri twin_tree_spliced) (path_join ?h ''/w/tests'' m)"
    by blast
  from lt listed have "listedT = [''Button.test.tsx'']" by simp
  with ts_l have "map label ts = [''Button.test.tsx'']" by simp
  with twice have "2 \<le> count_list (map resourceUri twin_tree_spliced)
                        (path_join ?h ''/w/tests'' ''Button.test.tsx'')"
    by simp
  then have counted: "2 \<le> count_list (map resourceUri twin_tree_spliced) ''/w/tests/Button.test.tsx''"
    by (simp only: joined)
  have shown: "map label twin_tree_spliced = [''Button.tsx'', ''Button.test.tsx'', ''Button.css'', ''Button.test.tsx'']"
    "map resourceUri twin_tree_spliced =
             [''/w/components/Button.tsx'', ''/w/tests/Button.test.tsx'',
              ''/w/components/Button.css'', ''/w/tests/Button.test.tsx'']"
    by (simp_all add: twin_tree_spliced_def)
  show ?thesis
    by (rule exI [of _ twin_tree_spliced]) (intro conjI twin_tree_expanded shown counted)
qed

text \<open>
  Claim C9, as stated for any directory listing and any \<^verbatim>\<open>getChildren\<close> result,
  fails for the root query: the workspace root lists \<^verbatim>\<open>Button.tsx\<close> and
  \<^verbatim>\<open>Button.css\<close>, its tests directory holds the matching \<^verbatim>\<open>Button.test.tsx\<close>, and
  the root query returns the listed entries only, without the path of the test.
\<close>

theorem root_query_shared_stem_counterexample:
  "fst (getChildren (tree_host twin_root_tree) ''/w'' None \<lparr>messages = []\<rparr>) = Inr twin_root_listing
   \<and> getAllFileNamesInDirectory (tree_host twin_root_tree) ''/w''
       = Inr [''Button.tsx'', ''Button.css'', ''tests'']
   \<and> getAllFileNamesInDirectory (tree_host twin_root_tree) ''/w/tests'' = Inr [''Button.test.tsx'']
   \<and> stem ''Button.tsx'' = stem ''Button.css''
   \<and> isTestOrStoryFile ''Button.tsx'' = False
   \<and> isTestOrStoryFile ''Button.css'' = False
   \<and> isTestFile ''Button.tsx'' ''Button.test.tsx'' = True
   \<and> map resourceUri twin_root_listing = [''/w/Button.tsx'', ''/w/Button.css'', ''/w/tests'']
   \<and> count_list (map resourceUri twin_root_listing) ''/w/tests/Button.test.tsx'' = 0"
proof -
  have query: "fst (getChildren (tree_host twin_root_tree) ''/w'' None \<lparr>messages = []\<rparr>)
                 = Inr twin_root_listing"
    by code_simp
  have top: "getAllFileNamesInDirectory (tree_host twin_root_tree) ''/w''
       = Inr [''Button.tsx'', ''Button.css'', ''tests'']"
    by code_simp
  have tests: "getAllFileNamesInDirectory (tree_host twin_root_tree) ''/w/tests'' = Inr [''Button.test.tsx'']"
    by code_simp
  have stems: "stem ''Button.tsx'' = stem ''Button.css''"
    by (simp add: stem_def)
  have plain: "isTestOrStoryFile ''Button.tsx'' = False" "isTestOrStoryFile ''Button.css'' = False"
    by code_simp+
  have matched: "isTestFile ''Button.tsx'' ''Button.test.tsx'' = True"
    by (simp add: isTestFile_prefix stem_def)
  have paths: "map resourceUri twin_root_listing = [''/w/Button.tsx'', ''/w/Button.css'', ''/w/tests'']"
    by (simp add: twin_root_listing_def)
  have absent: "count_list (map resourceUri twin_root_listing) ''/w/tests/Button.test.tsx'' = 0"
    unfolding paths by simp
  show ?thesis
    by (intro conjI query top tests stems plain matched paths absent)
qed

text \<open>
  Claim C10, as amended. The auxiliary directories are detected by equality of the path
  with \<^verbatim>\<open>workspaceRoot/tests\<close> and \<^verbatim>\<open>workspaceRoot/stories\<close> only. With the workspace
  root set, a node with any other path, also one named \<^verbatim>\<open>tests\<close> or \<^verbatim>\<open>stories\<close>
  elsewhere, is expanded by the splice; none of the directory's own entries is marked
  auxiliary, and each entry is followed only by nodes that are marked auxiliary, the
  matches spliced in from the two auxiliary directories of the workspace root.
\<close>

theorem other_directory_runs_splice:
  assumes "workspaceRoot \<noteq> []"
    and "resourceUri node \<noteq> path_join h workspaceRoot ''tests''"
    and "resourceUri node \<noteq> path_join h workspaceRoot ''stories''"
  shows "getChildren h workspaceRoot (Some node) w
           = (getCombinedComponentsWithTestFiles h workspaceRoot (resourceUri node), w)
       \<and> (\<forall>items. getAllFilesInDirectory h workspaceRoot (resourceUri node) = Inr items \<longrightarrow>
             list_all (\<lambda>f. \<not> isTestOrStoryFile_field f) items)
       \<and> (\<forall>res. getCombinedComponentsWithTestFiles h workspaceRoot (resourceUri node) = Inr res \<longrightarrow>
             (\<exists>base segs.
                getAllFilesInDirectory h workspaceRoot (resourceUri node) = Inr base
                \<and> res = concat segs
                \<and> list_all2
                    (\<lambda>f seg. \<exists>ms. seg = f # ms \<and> \<not> isTestOrStoryFile_field f
                                 \<and> list_all isTestOrStoryFile_field ms)
                    base segs))"
proof -
  from assms(2,3) have plain: "\<not> inTestOrStoryDirectory h workspaceRoot (resourceUri node)"
    by (simp add: inTestOrStoryDirectory_def)
  with assms(1) have call: "getChildren h workspaceRoot (Some node) w
           = (getCombinedComponentsWithTestFiles h workspaceRoot (resourceUri node), w)"
    by (simp add: getChildren_def)
  have own: "list_all (\<lambda>f. \<not> isTestOrStoryFile_field f) items"
    if items: "getAllFilesInDirectory h workspaceRoot (resourceUri node) = Inr items" for items
  proof -
    from getAllFilesInDirectory_fields(3) [OF items] plain
    have "map isTestOrStoryFile_field items = map (\<lambda>e. False) items"
      by simp
    then show ?thesis
      by (simp add: list_all_iff)
  qed
  have spliced: "\<exists>base segs.
                getAllFilesInDirectory h workspaceRoot (resourceUri node) = Inr base
                \<and> res = concat segs
                \<and> list_all2
                    (\<lambda>f seg. \<exists>ms. seg = f # ms \<and> \<not> isTestOrStoryFile_field f
                                 \<and> list_all isTestOrStoryFile_field ms)
                    base segs"
    if res: "getCombinedComponentsWithTestFiles h workspaceRoot (resourceUri node) = Inr res" for res
  proof -
    from getCombined_segments [OF res] obtain base segs where
      base: "getAllFilesInDirectory h workspaceRoot (resourceUri node) = Inr base" and
      cat: "res = concat segs" and
      segs: "list_all2 (\<lambda>f seg. combine_callback h workspaceRoot f [] = Inr seg) base segs"
      by blast
    from own [OF base] have unmarked: "\<And>f. f \<in> set base \<Longrightarrow> \<not> isTestOrStoryFile_field f"
      by (simp add: list_all_iff)
    have step: "\<exists>ms. seg = f # ms \<and> \<not> isTestOrStoryFile_field f \<and> list_all isTestOrStoryFile_field ms"
      if f: "f \<in> set base" and seg: "combine_callback h workspaceRoot f [] = Inr seg" for f seg
    proof (cases "isTestOrStoryFile (label f)")
      case True
      with combine_callback_segment [OF seg] unmarked [OF f] show ?thesis by simp
    next
      case False
      with combine_callback_segment [OF seg] obtain ts ss where
        ts: "findMatchingFiles h (path_join h workspaceRoot ''tests'') (label f) = Inr ts" and
        ss: "findMatchingFiles h (path_join h workspaceRoot ''stories'') (label f) = Inr ss" and
        eq: "seg = f # ts @ ss"
        by auto
      from findMatchingFiles_fields(3) [OF ts] findMatchingFiles_fields(3) [OF ss]
      have "list_all isTestOrStoryFile_field (ts @ ss)" by simp
      with eq unmarked [OF f] show ?thesis by blast
    qed
    from segs have "list_all2
                    (\<lambda>f seg. \<exists>ms. seg = f # ms \<and> \<not> isTestOrStoryFile_field f
                                 \<and> list_all isTestOrStoryFile_field ms)
                    base segs"
      by (rule list.rel_mono_strong) (rule step)
    with base cat show ?thesis by blast
  qed
  from call own spliced show ?thesis by blast
qed

theorem other_directory_runs_splice_witness:
  "getChildren (tree_host nested_tree) ''/w''
       (Some (directory_node (tree_host nested_tree) ''tests'' ''/w/components/tests''))
       \<lparr>messages = []\<rparr>
     = (Inr nested_tree_children, \<lparr>messages = []\<rparr>)
   \<and> list_all (\<lambda>f. \<not> isTestOrStoryFile_field f) [hd nested_tree_children]
   \<and> getAllFilesInDirectory (tree_host nested_tree) ''/w'' ''/w/components/tests''
       = Inr [hd nested_tree_children]"
proof -
  have nonempty: "''/w'' \<noteq> []" by simp
  have uri: "resourceUri (directory_node (tree_host nested_tree) ''tests'' ''/w/components/tests'')
               = ''/w/components/tests''"
    by (simp add: directory_node_def new_FileItem_def)
  have joined: "path_join (tree_host nested_tree) ''/w'' ''tests'' = ''/w/tests''"
    "path_join (tree_host nested_tree) ''/w'' ''stories'' = ''/w/stories''"
    by (simp_all add: tree_host_def posix_join_def)
  have not_tests: "resourceUri (directory_node (tree_host nested_tree) ''tests'' ''/w/components/tests'')
               \<noteq> path_join (tree_host nested_tree) ''/w'' ''tests''"
    by (simp add: uri joined)
  have not_stories: "resourceUri (directory_node (tree_host nested_tree) ''tests'' ''/w/components/tests'')
               \<noteq> path_join (tree_host nested_tree) ''/w'' ''stories''"
    by (simp add: uri joined)
  have listing: "getAllFilesInDirectory (tree_host nested_tree) ''/w'' ''/w/components/tests''
       = Inr [hd nested_tree_children]"
    by code_simp
  from other_directory_runs_splice [OF nonempty not_tests not_stories, of "\<lparr>messages = []\<rparr>"]
  show ?thesis
    by (simp add: uri nested_tree_combined listing)
qed

text \<open>
  Claim C10, as stated, fails where it says that no child is marked auxiliary: the nested
  directory \<^verbatim>\<open>/w/components/tests\<close> lists \<^verbatim>\<open>helpers.ts\<close>, the tests directory of the
  workspace root holds \<^verbatim>\<open>helpers.test.ts\<close>, and the expansion of the nested directory
  returns that test as a second child, marked auxiliary.
\<close>

theorem nested_tests_child_marked_counterexample:
  "getChildren (tree_host nested_tree) ''/w''
       (Some (directory_node (tree_host nested_tree) ''tests'' ''/w/components/tests''))
       \<lparr>messages = []\<rparr>
     = (Inr nested_tree_children, \<lparr>messages = []\<rparr>)
   \<and> map resourceUri nested_tree_children
       = [''/w/components/tests/helpers.ts'', ''/w/tests/helpers.test.ts'']
   \<and> map isTestOrStoryFile_field nested_tree_children = [False, True]
   \<and> resourceUri (directory_node (tree_host nested_tree) ''tests'' ''/w/components/tests'')
       = ''/w/components/tests''
   \<and> path_join (tree_host nested_tree) ''/w'' ''tests'' = ''/w/tests''"
proof -
  have call: "getChildren (tree_host nested_tree) ''/w''
       (Some (directory_node (tree_host nested_tree) ''tests'' ''/w/components/tests''))
       \<lparr>messages = []\<rparr>
     = (Inr nested_tree_children, \<lparr>messages = []\<rparr>)"
    by code_simp
  have rest: "map resourceUri nested_tree_children
       = [''/w/components/tests/helpers.ts'', ''/w/tests/helpers.test.ts'']
   \<and> map isTestOrStoryFile_field nested_tree_children = [False, True]
   \<and> resourceUri (directory_node (tree_host nested_tree) ''tests'' ''/w/components/tests'')
       = ''/w/components/tests''
   \<and> path_join (tree_host nested_tree) ''/w'' ''tests'' = ''/w/tests''"
    by (simp add: nested_tree_children_def directory_node_def new_FileItem_def)
      (simp add: tree_host_def posix_join_def)
  from call rest show ?thesis by blast
qed

end
